theory Spec2Isabelle
  imports Main "HOL-Library.Word" "HOL-Library.Sublist"
begin

section \<open>Data model of BcmPortGroup.cpp\<close>

subsection \<open>Port speeds and lane modes\<close>

text \<open>
  A port speed is handled by the code only through \<open>static_cast<uint32_t>\<close> and through
  comparison with the enumerator \<open>PortSpeed::DEFAULT\<close>, so a speed is represented by the
  32-bit value the cast yields.
\<close>

type_synonym PortSpeed = "32 word"

text \<open>
  Modelled from the spec: the enumeration \<open>cfg::PortSpeed\<close> is declared in the
  configuration schema, not in BcmPortGroup.cpp. The spec calls \<open>DEFAULT\<close> the sentinel
  "unspecified" speed, different from every real positive speed; it is the value 0.
\<close>

definition DEFAULT :: PortSpeed where
  "DEFAULT = 0"

datatype LaneMode = SINGLE | DUAL | QUAD

text \<open>
  Modelled from the spec: the enumerators of \<open>BcmPortGroup::LaneMode\<close> are declared in
  BcmPortGroup.h. The spec fixes their order, SINGLE < DUAL < QUAD, which is all that the
  comparison \<open>neededMode < desiredMode\<close> reads; the rank below realises that order.
\<close>

fun laneModeRank :: "LaneMode \<Rightarrow> nat" where
  "laneModeRank SINGLE = 1"
| "laneModeRank DUAL = 2"
| "laneModeRank QUAD = 4"

definition laneModeLess :: "LaneMode \<Rightarrow> LaneMode \<Rightarrow> bool" where
  "laneModeLess a b = (laneModeRank a < laneModeRank b)"

definition laneModeLeq :: "LaneMode \<Rightarrow> LaneMode \<Rightarrow> bool" where
  "laneModeLeq a b = (laneModeRank a \<le> laneModeRank b)"

subsection \<open>Exceptions and outcomes\<close>

text \<open>
  One constructor for each \<open>throw FbossError(...)\<close> of the file, in the order of the
  source, and one for an error of the SDK surfaced by the collaborators.
\<close>

datatype FbossError =
    SpeedCannotBeDefault
  | CannotSupportSpeed PortSpeed
  | PortGroupsMustHaveFourMembers
  | PortsNotOrderedByLane
  | UnexpectedNumberOfLanes int
  | OnlyLane0InSingleMode
  | OnlyLanes0Or2InDualMode
  | PortDoesNotSupportSpeed nat PortSpeed
  | HardwareAccessError

text \<open>
  A call returns a value, throws, or has no defined behaviour at all (the unsigned
  division by zero of \<open>neededLaneModeForSpeed\<close>). The last is not an exception: no
  \<open>catch\<close> handles it.
\<close>

datatype 'a outcome = Returns 'a | Throws FbossError | Undefined

definition isLanePlacementError :: "FbossError \<Rightarrow> bool" where
  "isLanePlacementError e = (e = OnlyLane0InSingleMode \<or> e = OnlyLanes0Or2InDualMode)"

subsection \<open>Ports of the switch state\<close>

text \<open>
  Modelled from the spec: the class \<open>Port\<close> of the switch state is declared in
  fboss/agent/state/Port.h. The code reads three things of it: \<open>getID()\<close>,
  \<open>getSpeed()\<close> and \<open>isDisabled()\<close>.
\<close>

record Port =
  getID :: nat
  getSpeed :: PortSpeed
  isDisabled :: bool

section \<open>The lane-mode requirement of one port\<close>

text \<open>
  \<open>neededLaneModeForSpeed\<close>, lines 26 to 42. Both operands of the division are
  \<open>uint32_t\<close>; the source does not test the divisor.
\<close>

definition neededLaneModeForSpeed :: "PortSpeed \<Rightarrow> PortSpeed \<Rightarrow> LaneMode outcome" where
  "neededLaneModeForSpeed speed maxLaneSpeed =
     (if speed = DEFAULT then Throws SpeedCannotBeDefault
      else if maxLaneSpeed = 0 then Undefined
      else
        (let neededLanes = speed div maxLaneSpeed in
         if neededLanes \<le> 1 then Returns QUAD
         else if neededLanes = 2 then Returns DUAL
         else if neededLanes > 2 \<and> neededLanes \<le> 4 then Returns SINGLE
         else Throws (CannotSupportSpeed speed)))"

section \<open>The desired lane mode of a group\<close>

text \<open>
  The loop of \<open>calculateDesiredLaneMode\<close>, lines 89 to 111: \<open>lane\<close> is the loop counter,
  \<open>desiredMode\<close> the running mode, the list the ports not yet visited.
\<close>

fun calculateLoop :: "PortSpeed \<Rightarrow> nat \<Rightarrow> LaneMode \<Rightarrow> Port list \<Rightarrow> LaneMode outcome" where
  "calculateLoop maxLaneSpeed lane desiredMode [] = Returns desiredMode"
| "calculateLoop maxLaneSpeed lane desiredMode (port # rest) =
     (if \<not> isDisabled port then
        (case neededLaneModeForSpeed (getSpeed port) maxLaneSpeed of
           Throws e \<Rightarrow> Throws e
         | Undefined \<Rightarrow> Undefined
         | Returns neededMode \<Rightarrow>
             (let desiredMode' =
                    (if laneModeLess neededMode desiredMode then neededMode else desiredMode)
              in
                if desiredMode' = SINGLE then
                  (if lane \<noteq> 0 then Throws OnlyLane0InSingleMode
                   else calculateLoop maxLaneSpeed (Suc lane) desiredMode' rest)
                else if desiredMode' = DUAL then
                  (if lane \<noteq> 0 \<and> lane \<noteq> 2 then Throws OnlyLanes0Or2InDualMode
                   else calculateLoop maxLaneSpeed (Suc lane) desiredMode' rest)
                else calculateLoop maxLaneSpeed (Suc lane) desiredMode' rest))
      else calculateLoop maxLaneSpeed (Suc lane) desiredMode rest)"

definition calculateDesiredLaneMode :: "Port list \<Rightarrow> PortSpeed \<Rightarrow> LaneMode outcome" where
  "calculateDesiredLaneMode ports maxLaneSpeed = calculateLoop maxLaneSpeed 0 QUAD ports"

section \<open>Collaborators of the port group\<close>

subsection \<open>The hardware-facing port and the switch-state snapshot\<close>

text \<open>
  Modelled from the spec: the class \<open>BcmPort\<close> is declared in BcmPort.h. The port group
  holds non-owning references to its member ports and reads of each one its hardware
  identifier (\<open>opennsl_port_t\<close>, kept as an integer), its supported-speed set and its
  maximum speed per lane.
\<close>

record BcmPort =
  getBcmPortId :: int
  supportsSpeed :: "PortSpeed \<Rightarrow> bool"
  maxLaneSpeed :: PortSpeed

text \<open>
  Modelled from the spec: the switch-state store resolves a port reference to the port's
  configured speed and enabled flag in the snapshot. A snapshot is the lookup itself.
\<close>

type_synonym SwitchState = "int \<Rightarrow> Port"

definition getSwitchStatePort :: "BcmPort \<Rightarrow> SwitchState \<Rightarrow> Port" where
  "getSwitchStatePort bcmPort state = state (getBcmPortId bcmPort)"

subsection \<open>The hardware\<close>

text \<open>
  The calls that leave the port group towards the hardware: the three actions of
  \<open>reconfigure\<close> and the read of the constructor.
\<close>

datatype HwCall =
    DisableCall int
  | SetActiveLanesCall int LaneMode
  | EnableCall int
  | RetrieveActiveLanesCall int

text \<open>
  Modelled from the spec: the hardware holds, for each port identifier, whether the port
  is enabled, and for each controlling port the lane-control register (the number of active
  lanes). \<open>calls\<close> records every action requested of it, in order. The counter-DMA and
  link-scan bitmaps are changed inside the port collaborator and read by nothing here.
\<close>

record BcmHw =
  portEnabled :: "int \<Rightarrow> bool"
  activeLanes :: "int \<Rightarrow> int"
  calls :: "HwCall list"

text \<open>
  Modelled from the spec: an access to the hardware may fail (HardwareAccessError); the
  error propagates synchronously. Which calls fail during one operation is a parameter of
  the operation.
\<close>

type_synonym Sdk = "HwCall \<Rightarrow> bool"

text \<open>
  Modelled from the spec: \<open>BcmPort::disable\<close> and \<open>BcmPort::enable\<close> are defined in
  BcmPort.cpp. Each requests the change of the port's state; when the request fails it
  throws and the port is left as it was.
\<close>

definition disable :: "Sdk \<Rightarrow> BcmPort \<Rightarrow> Port \<Rightarrow> BcmHw \<Rightarrow> unit outcome \<times> BcmHw" where
  "disable fails bcmPort swPort hw =
     (let c = DisableCall (getBcmPortId bcmPort);
          hw' = hw\<lparr>calls := calls hw @ [c]\<rparr>
      in if fails c then (Throws HardwareAccessError, hw')
         else (Returns (),
               hw'\<lparr>portEnabled := (portEnabled hw')(getBcmPortId bcmPort := False)\<rparr>))"

definition enable :: "Sdk \<Rightarrow> BcmPort \<Rightarrow> Port \<Rightarrow> BcmHw \<Rightarrow> unit outcome \<times> BcmHw" where
  "enable fails bcmPort swPort hw =
     (let c = EnableCall (getBcmPortId bcmPort);
          hw' = hw\<lparr>calls := calls hw @ [c]\<rparr>
      in if fails c then (Throws HardwareAccessError, hw')
         else (Returns (),
               hw'\<lparr>portEnabled := (portEnabled hw')(getBcmPortId bcmPort := True)\<rparr>))"

section \<open>The port group\<close>

text \<open>
  The members \<open>controllingPort_\<close>, \<open>allPorts_\<close> and \<open>laneMode_\<close> of the class; the
  pointer \<open>hw_\<close> is the hardware state threaded through the operations.
\<close>

record BcmPortGroup =
  controllingPort :: BcmPort
  allPorts :: "BcmPort list"
  laneMode :: LaneMode

type_synonym System = "BcmPortGroup \<times> BcmHw"

subsection \<open>Construction\<close>

text \<open>\<open>getLane\<close>, lines 131 to 133: the difference of the identifiers, cut to \<open>uint8_t\<close>.\<close>

definition getLane :: "BcmPort \<Rightarrow> BcmPort \<Rightarrow> 8 word" where
  "getLane controlling bcmPort =
     word_of_int (getBcmPortId bcmPort - getBcmPortId controlling)"

text \<open>The loop of lines 59 to 63; \<open>False\<close> is its \<open>throw\<close>.\<close>

fun lanesOrdered :: "BcmPort \<Rightarrow> nat \<Rightarrow> BcmPort list \<Rightarrow> bool" where
  "lanesOrdered controlling i [] = True"
| "lanesOrdered controlling i (bcmPort # rest) =
     (if uint (getLane controlling bcmPort) \<noteq> int i then False
      else lanesOrdered controlling (Suc i) rest)"

text \<open>The \<open>switch\<close> of lines 67 to 80; \<open>None\<close> is its \<open>default\<close>.\<close>

definition laneModeOfActiveLanes :: "int \<Rightarrow> LaneMode option" where
  "laneModeOfActiveLanes activeLanes' =
     (if activeLanes' = 1 then Some QUAD
      else if activeLanes' = 2 then Some DUAL
      else if activeLanes' = 4 then Some SINGLE
      else None)"

text \<open>
  Modelled from the spec: \<open>retrieveActiveLanes\<close> is declared in BcmPortGroup.h and defined
  outside BcmPortGroup.cpp. It reads the active-lane count of the lane-control register
  keyed by the controlling port's hardware identifier.
\<close>

definition retrieveActiveLanes :: "Sdk \<Rightarrow> BcmPort \<Rightarrow> BcmHw \<Rightarrow> int outcome" where
  "retrieveActiveLanes fails controlling hw =
     (if fails (RetrieveActiveLanesCall (getBcmPortId controlling))
      then Throws HardwareAccessError
      else Returns (activeLanes hw (getBcmPortId controlling)))"

text \<open>The constructor, lines 48 to 82.\<close>

definition construct :: "Sdk \<Rightarrow> BcmHw \<Rightarrow> BcmPort \<Rightarrow> BcmPort list \<Rightarrow> BcmPortGroup outcome" where
  "construct fails hw controlling ports =
     (if length ports \<noteq> 4 then Throws PortGroupsMustHaveFourMembers
      else if \<not> lanesOrdered controlling 0 ports then Throws PortsNotOrderedByLane
      else
        (case retrieveActiveLanes fails controlling hw of
           Throws e \<Rightarrow> Throws e
         | Undefined \<Rightarrow> Undefined
         | Returns n \<Rightarrow>
             (case laneModeOfActiveLanes n of
                Some mode \<Rightarrow>
                  Returns \<lparr>controllingPort = controlling, allPorts = ports, laneMode = mode\<rparr>
              | None \<Rightarrow> Throws (UnexpectedNumberOfLanes (getBcmPortId controlling)))))"

subsection \<open>Resolution over a snapshot\<close>

text \<open>
  The loop of \<open>getDesiredLaneMode\<close>, lines 118 to 127: the third argument is the vector
  \<open>ports\<close> built so far.
\<close>

fun collectPorts :: "SwitchState \<Rightarrow> BcmPort list \<Rightarrow> Port list \<Rightarrow> Port list outcome" where
  "collectPorts state [] ports = Returns ports"
| "collectPorts state (bcmPort # rest) ports =
     (let swPort = getSwitchStatePort bcmPort state in
      if \<not> supportsSpeed bcmPort (getSpeed swPort)
      then Throws (PortDoesNotSupportSpeed (getID swPort) (getSpeed swPort))
      else collectPorts state rest (ports @ [swPort]))"

definition getDesiredLaneMode :: "BcmPortGroup \<Rightarrow> SwitchState \<Rightarrow> LaneMode outcome" where
  "getDesiredLaneMode g state =
     (case collectPorts state (allPorts g) [] of
        Throws e \<Rightarrow> Throws e
      | Undefined \<Rightarrow> Undefined
      | Returns ports \<Rightarrow> calculateDesiredLaneMode ports (maxLaneSpeed (controllingPort g)))"

text \<open>
  \<open>validConfiguration\<close>, lines 135 to 144. The handler catches \<open>std::exception\<close>, the base
  of \<open>FbossError\<close>.
\<close>

definition validConfiguration :: "BcmPortGroup \<Rightarrow> SwitchState \<Rightarrow> bool outcome" where
  "validConfiguration g state =
     (case getDesiredLaneMode g state of
        Throws ex \<Rightarrow> Returns False
      | Undefined \<Rightarrow> Undefined
      | Returns desired \<Rightarrow> Returns True)"

subsection \<open>Reconfiguration\<close>

text \<open>
  Modelled from the spec: the lane count written for a lane mode is the one the
  constructor reads back as that mode (1 for QUAD, 2 for DUAL, 4 for SINGLE).
\<close>

fun activeLanesOfMode :: "LaneMode \<Rightarrow> int" where
  "activeLanesOfMode QUAD = 1"
| "activeLanesOfMode DUAL = 2"
| "activeLanesOfMode SINGLE = 4"

text \<open>
  Modelled from the spec: \<open>setActiveLanes\<close> is declared in BcmPortGroup.h and defined
  outside BcmPortGroup.cpp. It writes the new lane mode to the lane-control register keyed
  by the controlling port's hardware identifier, and is the single point of mutation of the
  recorded lane mode, which it updates only after the write has succeeded.
\<close>

definition setActiveLanes :: "Sdk \<Rightarrow> LaneMode \<Rightarrow> System \<Rightarrow> unit outcome \<times> System" where
  "setActiveLanes fails desiredLaneMode s =
     (case s of (g, hw) \<Rightarrow>
        (let port = getBcmPortId (controllingPort g);
             c = SetActiveLanesCall port desiredLaneMode;
             hw' = hw\<lparr>calls := calls hw @ [c]\<rparr>
         in if fails c then (Throws HardwareAccessError, (g, hw'))
            else (Returns (),
                  (g\<lparr>laneMode := desiredLaneMode\<rparr>,
                   hw'\<lparr>activeLanes :=
                          (activeLanes hw')(port := activeLanesOfMode desiredLaneMode)\<rparr>))))"

text \<open>Step 1 of \<open>reconfigure\<close>, lines 170 to 173.\<close>

fun disableAll :: "Sdk \<Rightarrow> SwitchState \<Rightarrow> BcmPort list \<Rightarrow> BcmHw \<Rightarrow> unit outcome \<times> BcmHw" where
  "disableAll fails state [] hw = (Returns (), hw)"
| "disableAll fails state (bcmPort # rest) hw =
     (case disable fails bcmPort (getSwitchStatePort bcmPort state) hw of
        (Returns u, hw') \<Rightarrow> disableAll fails state rest hw'
      | (Throws e, hw') \<Rightarrow> (Throws e, hw')
      | (Undefined, hw') \<Rightarrow> (Undefined, hw'))"

text \<open>Step 4 of \<open>reconfigure\<close>, lines 182 to 187.\<close>

fun enableAll :: "Sdk \<Rightarrow> SwitchState \<Rightarrow> BcmPort list \<Rightarrow> BcmHw \<Rightarrow> unit outcome \<times> BcmHw" where
  "enableAll fails state [] hw = (Returns (), hw)"
| "enableAll fails state (bcmPort # rest) hw =
     (let swPort = getSwitchStatePort bcmPort state in
      if \<not> isDisabled swPort then
        (case enable fails bcmPort swPort hw of
           (Returns u, hw') \<Rightarrow> enableAll fails state rest hw'
         | (Throws e, hw') \<Rightarrow> (Throws e, hw')
         | (Undefined, hw') \<Rightarrow> (Undefined, hw'))
      else enableAll fails state rest hw)"

text \<open>\<open>reconfigure\<close>, lines 159 to 191.\<close>

definition reconfigure :: "Sdk \<Rightarrow> SwitchState \<Rightarrow> LaneMode \<Rightarrow> System \<Rightarrow> unit outcome \<times> System" where
  "reconfigure fails state newLaneMode s =
     (case s of (g, hw) \<Rightarrow>
        (case disableAll fails state (allPorts g) hw of
           (Throws e, hw1) \<Rightarrow> (Throws e, (g, hw1))
         | (Undefined, hw1) \<Rightarrow> (Undefined, (g, hw1))
         | (Returns u, hw1) \<Rightarrow>
             (case setActiveLanes fails newLaneMode (g, hw1) of
                (Throws e, s2) \<Rightarrow> (Throws e, s2)
              | (Undefined, s2) \<Rightarrow> (Undefined, s2)
              | (Returns u', (g2, hw2)) \<Rightarrow>
                  (case enableAll fails state (allPorts g2) hw2 of
                     (r, hw3) \<Rightarrow> (r, (g2, hw3))))))"

text \<open>\<open>reconfigureIfNeeded\<close>, lines 146 to 157.\<close>

definition reconfigureIfNeeded :: "Sdk \<Rightarrow> SwitchState \<Rightarrow> System \<Rightarrow> unit outcome \<times> System" where
  "reconfigureIfNeeded fails state s =
     (case getDesiredLaneMode (fst s) state of
        Throws e \<Rightarrow> (Throws e, s)
      | Undefined \<Rightarrow> (Undefined, s)
      | Returns desiredLaneMode \<Rightarrow>
          (if desiredLaneMode \<noteq> laneMode (fst s) then reconfigure fails state desiredLaneMode s
           else (Returns (), s)))"

subsection \<open>The states a port group goes through\<close>

text \<open>
  A system is reachable when it is the result of a construction that returned, or of an
  operation that completed (returned or threw) from a reachable system. The other
  operations of the class are \<open>const\<close> and change nothing.
\<close>

inductive reachable :: "System \<Rightarrow> bool" where
  constructed:
    "construct fails hw controlling ports = Returns g \<Longrightarrow> reachable (g, hw)"
| reconfigured:
    "reachable s \<Longrightarrow> reconfigureIfNeeded fails state s = (r, s') \<Longrightarrow> r \<noteq> Undefined
       \<Longrightarrow> reachable s'"

text \<open>The recorded lane mode is the one the lane-control register reports.\<close>

definition laneModeMatchesHardware :: "System \<Rightarrow> bool" where
  "laneModeMatchesHardware s =
     (laneModeOfActiveLanes (activeLanes (snd s) (getBcmPortId (controllingPort (fst s))))
        = Some (laneMode (fst s)))"


section \<open>Example configurations\<close>

text \<open>
  A group of four ports with hardware identifiers 10 to 13 and a maximum speed per lane of
  10000, found by the constructor in QUAD mode, and the snapshots of the end-to-end
  scenarios.
\<close>

definition examplePort :: "int \<Rightarrow> BcmPort" where
  "examplePort i =
     \<lparr>getBcmPortId = i, supportsSpeed = (\<lambda>speed. speed \<noteq> 100000), maxLaneSpeed = 10000\<rparr>"

definition exampleGroup :: BcmPortGroup where
  "exampleGroup =
     \<lparr>controllingPort = examplePort 10,
      allPorts = [examplePort 10, examplePort 11, examplePort 12, examplePort 13],
      laneMode = QUAD\<rparr>"

definition exampleHw :: BcmHw where
  "exampleHw = \<lparr>portEnabled = (\<lambda>i. True), activeLanes = (\<lambda>i. 1), calls = []\<rparr>"

definition accepting :: Sdk where
  "accepting c = False"

text \<open>The snapshot in which exactly the ports of \<open>enabled\<close> are enabled, at the given speeds.\<close>

definition snapshot :: "int list \<Rightarrow> (int \<Rightarrow> PortSpeed) \<Rightarrow> SwitchState" where
  "snapshot enabled speedOf i =
     \<lparr>getID = nat i, getSpeed = speedOf i, isDisabled = (i \<notin> set enabled)\<rparr>"

text \<open>Scenario A: all four lanes enabled at one lane each.\<close>

definition scenarioA :: SwitchState where
  "scenarioA = snapshot [10, 11, 12, 13] (\<lambda>i. 10000)"

text \<open>Scenario B: lane 0 enabled at four lanes, the others disabled.\<close>

definition scenarioB :: SwitchState where
  "scenarioB = snapshot [10] (\<lambda>i. if i = 10 then 40000 else 10000)"

text \<open>Scenario C: lanes 0 and 2 enabled at two lanes each.\<close>

definition scenarioC :: SwitchState where
  "scenarioC = snapshot [10, 12] (\<lambda>i. 20000)"

text \<open>Scenario D: lane 1 enabled at four lanes, the others disabled.\<close>

definition scenarioD :: SwitchState where
  "scenarioD = snapshot [11] (\<lambda>i. 40000)"

text \<open>Scenario E: an enabled port with the unspecified speed.\<close>

definition scenarioE :: SwitchState where
  "scenarioE = snapshot [10] (\<lambda>i. DEFAULT)"

text \<open>A disabled port configured with a speed its hardware does not support.\<close>

definition scenarioUnsupported :: SwitchState where
  "scenarioUnsupported = snapshot [10] (\<lambda>i. if i = 13 then 100000 else 10000)"

text \<open>An enabled port whose speed needs five lanes.\<close>

definition scenarioFiveLanes :: SwitchState where
  "scenarioFiveLanes = snapshot [10] (\<lambda>i. 50000)"

section \<open>The lane-mode requirement function\<close>

lemma neededLanes_unat:
  "perLane \<noteq> 0 \<Longrightarrow>
   ((speed div perLane :: 32 word) \<le> 1) = (unat speed div unat perLane \<le> 1) \<and>
   ((speed div perLane :: 32 word) = 2) = (unat speed div unat perLane = 2) \<and>
   ((speed div perLane :: 32 word) > 2) = (unat speed div unat perLane > 2) \<and>
   ((speed div perLane :: 32 word) \<le> 4) = (unat speed div unat perLane \<le> 4)"
  by (simp add: word_le_nat_alt word_less_nat_alt unat_div word_unat_eq_iff)

text \<open>
  Claim C4. For a speed that is not the sentinel \<open>DEFAULT\<close> and a maximum speed per lane
  whose quotient is defined, \<open>neededLaneModeForSpeed\<close> returns QUAD when
  \<open>floor (speed / maxLaneSpeed)\<close> is at most 1, DUAL when it is 2, SINGLE when it is
  greater than 2 and at most 4, and throws when it exceeds 4; for the sentinel speed it
  throws, whatever the maximum speed per lane.
\<close>

theorem neededLaneModeForSpeed_by_quotient:
  "(speed = DEFAULT \<longrightarrow> neededLaneModeForSpeed speed perLane = Throws SpeedCannotBeDefault) \<and>
   (speed \<noteq> DEFAULT \<and> perLane \<noteq> 0 \<longrightarrow>
      (unat speed div unat perLane \<le> 1 \<longrightarrow>
         neededLaneModeForSpeed speed perLane = Returns QUAD) \<and>
      (unat speed div unat perLane = 2 \<longrightarrow>
         neededLaneModeForSpeed speed perLane = Returns DUAL) \<and>
      (2 < unat speed div unat perLane \<and> unat speed div unat perLane \<le> 4 \<longrightarrow>
         neededLaneModeForSpeed speed perLane = Returns SINGLE) \<and>
      (4 < unat speed div unat perLane \<longrightarrow>
         neededLaneModeForSpeed speed perLane = Throws (CannotSupportSpeed speed)))"
  using neededLanes_unat [of perLane speed]
  by (auto simp: neededLaneModeForSpeed_def Let_def)

theorem neededLaneModeForSpeed_by_quotient_witness:
  "neededLaneModeForSpeed DEFAULT 10000 = Throws SpeedCannotBeDefault \<and>
   neededLaneModeForSpeed 10000 10000 = Returns QUAD \<and>
   neededLaneModeForSpeed 20000 10000 = Returns DUAL \<and>
   neededLaneModeForSpeed 40000 10000 = Returns SINGLE \<and>
   neededLaneModeForSpeed 100000 25000 = Returns SINGLE \<and>
   neededLaneModeForSpeed 100000 10000 = Throws (CannotSupportSpeed 100000)"
  using neededLaneModeForSpeed_by_quotient [of DEFAULT 10000]
    neededLaneModeForSpeed_by_quotient [of 10000 10000]
    neededLaneModeForSpeed_by_quotient [of 20000 10000]
    neededLaneModeForSpeed_by_quotient [of 40000 10000]
    neededLaneModeForSpeed_by_quotient [of 100000 25000]
    neededLaneModeForSpeed_by_quotient [of 100000 10000]
  by (simp add: DEFAULT_def)

text \<open>
  Claim C10. \<open>neededLaneModeForSpeed\<close> divides by the maximum speed per lane without
  testing it. When that divisor is not 0 the function returns a mode or throws; when it
  is 0 the division, and with it the call, has no defined behaviour for every speed other
  than the sentinel.
\<close>

theorem neededLaneModeForSpeed_zero_divisor:
  "(perLane \<noteq> 0 \<longrightarrow>
      (\<exists>mode. neededLaneModeForSpeed speed perLane = Returns mode) \<or>
      (\<exists>e. neededLaneModeForSpeed speed perLane = Throws e)) \<and>
   (perLane = 0 \<and> speed \<noteq> DEFAULT \<longrightarrow>
      neededLaneModeForSpeed speed perLane = Undefined)"
  by (simp add: neededLaneModeForSpeed_def Let_def)

theorem neededLaneModeForSpeed_zero_divisor_witness:
  "neededLaneModeForSpeed 40000 0 = Undefined \<and>
   ((\<exists>mode. neededLaneModeForSpeed 40000 10000 = Returns mode) \<or>
    (\<exists>e. neededLaneModeForSpeed 40000 10000 = Throws e))"
  using neededLaneModeForSpeed_zero_divisor [of 0 40000]
    neededLaneModeForSpeed_zero_divisor [of 10000 40000]
  by (simp add: DEFAULT_def)

section \<open>Desired-lane-mode resolution\<close>

lemma calculateLoop_all_disabled:
  "\<forall>p \<in> set ports. isDisabled p \<Longrightarrow>
   calculateLoop perLane lane desired ports = Returns desired"
  by (induction ports arbitrary: lane) simp_all

lemma collectPorts_Returns:
  "\<forall>b \<in> set bcmPorts. supportsSpeed b (getSpeed (getSwitchStatePort b state)) \<Longrightarrow>
   collectPorts state bcmPorts acc
     = Returns (acc @ map (\<lambda>b. getSwitchStatePort b state) bcmPorts)"
  by (induction bcmPorts arbitrary: acc) (simp_all add: Let_def)

text \<open>
  Claim C8. When all member ports are disabled, desired-lane-mode resolution succeeds and
  yields QUAD, whatever the configured speeds. Through \<open>getDesiredLaneMode\<close> the same
  holds once the speed-support check, which precedes resolution and also reads the
  disabled ports, has passed.
\<close>

theorem calculateDesiredLaneMode_all_disabled:
  "((\<forall>p \<in> set ports. isDisabled p) \<longrightarrow>
      calculateDesiredLaneMode ports perLane = Returns QUAD) \<and>
   ((\<forall>b \<in> set (allPorts g).
        isDisabled (getSwitchStatePort b state) \<and>
        supportsSpeed b (getSpeed (getSwitchStatePort b state))) \<longrightarrow>
      getDesiredLaneMode g state = Returns QUAD)"
  by (simp add: getDesiredLaneMode_def collectPorts_Returns calculateDesiredLaneMode_def
      calculateLoop_all_disabled)

theorem calculateDesiredLaneMode_all_disabled_witness:
  "calculateDesiredLaneMode
     [\<lparr>getID = 10, getSpeed = 100000, isDisabled = True\<rparr>,
      \<lparr>getID = 11, getSpeed = DEFAULT, isDisabled = True\<rparr>,
      \<lparr>getID = 12, getSpeed = 40000, isDisabled = True\<rparr>,
      \<lparr>getID = 13, getSpeed = 1000000, isDisabled = True\<rparr>] 10000 = Returns QUAD \<and>
   getDesiredLaneMode exampleGroup (snapshot [] (\<lambda>i. 40000)) = Returns QUAD"
  using calculateDesiredLaneMode_all_disabled
    [of "[\<lparr>getID = 10, getSpeed = 100000, isDisabled = True\<rparr>,
          \<lparr>getID = 11, getSpeed = DEFAULT, isDisabled = True\<rparr>,
          \<lparr>getID = 12, getSpeed = 40000, isDisabled = True\<rparr>,
          \<lparr>getID = 13, getSpeed = 1000000, isDisabled = True\<rparr>]"
        10000 exampleGroup "snapshot [] (\<lambda>i. 40000)"]
  by (simp add: exampleGroup_def examplePort_def snapshot_def getSwitchStatePort_def)

lemma calculateLoop_mono_start:
  "calculateLoop perLane lane d ports = Returns r \<Longrightarrow>
   calculateLoop perLane lane d' ports = Returns r' \<Longrightarrow>
   laneModeLeq d' d \<Longrightarrow> laneModeLeq r' r"
proof (induction ports arbitrary: lane d d')
  case Nil
  then show ?case by simp
next
  case (Cons p ports)
  show ?case
  proof (cases "isDisabled p")
    case True
    with Cons.prems Cons.IH [of "Suc lane" d d'] show ?thesis by simp
  next
    case False
    from Cons.prems(1) False obtain n where
      n: "neededLaneModeForSpeed (getSpeed p) perLane = Returns n"
      by (cases "neededLaneModeForSpeed (getSpeed p) perLane") simp_all
    let ?e = "if laneModeLess n d then n else d"
    let ?e' = "if laneModeLess n d' then n else d'"
    have le: "laneModeLeq ?e' ?e"
      using Cons.prems(3) by (auto simp: laneModeLeq_def laneModeLess_def)
    have a: "calculateLoop perLane (Suc lane) ?e ports = Returns r"
      using Cons.prems(1) False n by (simp add: Let_def split: if_splits)
    have b: "calculateLoop perLane (Suc lane) ?e' ports = Returns r'"
      using Cons.prems(2) False n by (simp add: Let_def split: if_splits)
    from Cons.IH [OF a b le] show ?thesis .
  qed
qed

lemma calculateLoop_enable_port:
  "i < length ports \<Longrightarrow> isDisabled (ports ! i) \<Longrightarrow> \<not> isDisabled p' \<Longrightarrow>
   calculateLoop perLane lane d ports = Returns r \<Longrightarrow>
   calculateLoop perLane lane d (ports[i := p']) = Returns r' \<Longrightarrow>
   laneModeLeq r' r"
proof (induction ports arbitrary: i lane d)
  case Nil
  then show ?case by simp
next
  case (Cons p ports)
  show ?case
  proof (cases i)
    case 0
    with Cons.prems have dis: "isDisabled p" by simp
    from Cons.prems(4) dis have a: "calculateLoop perLane (Suc lane) d ports = Returns r"
      by simp
    from Cons.prems(5) 0 Cons.prems(3) obtain n where
      n: "neededLaneModeForSpeed (getSpeed p') perLane = Returns n"
      by (cases "neededLaneModeForSpeed (getSpeed p') perLane") simp_all
    let ?e = "if laneModeLess n d then n else d"
    have b: "calculateLoop perLane (Suc lane) ?e ports = Returns r'"
      using Cons.prems(5) 0 Cons.prems(3) n by (simp add: Let_def split: if_splits)
    have "laneModeLeq ?e d" by (simp add: laneModeLeq_def laneModeLess_def)
    from calculateLoop_mono_start [OF a b this] show ?thesis .
  next
    case (Suc j)
    show ?thesis
    proof (cases "isDisabled p")
      case True
      with Cons.prems Suc Cons.IH [of j "Suc lane" d] show ?thesis by simp
    next
      case False
      from Cons.prems(4) False obtain n where
        n: "neededLaneModeForSpeed (getSpeed p) perLane = Returns n"
        by (cases "neededLaneModeForSpeed (getSpeed p) perLane") simp_all
      let ?e = "if laneModeLess n d then n else d"
      have a: "calculateLoop perLane (Suc lane) ?e ports = Returns r"
        using Cons.prems(4) False n by (simp add: Let_def split: if_splits)
      have b: "calculateLoop perLane (Suc lane) ?e (ports[j := p']) = Returns r'"
        using Cons.prems(5) Suc False n by (simp add: Let_def split: if_splits)
      from Cons.prems(1,2) Suc have "j < length ports" "isDisabled (ports ! j)" by simp_all
      from Cons.IH [OF this Cons.prems(3) a b] show ?thesis .
    qed
  qed
qed

text \<open>
  Claim C9. Resolution is monotone: when resolution succeeds on a configuration, and still
  succeeds after one more port (disabled before) is enabled, the new resolved mode is at
  least as lane-demanding as the previous one: it lies between SINGLE and the previous
  result in the order SINGLE < DUAL < QUAD. This holds for every lane requirement of the
  added port, the highest one included.
\<close>

theorem calculateDesiredLaneMode_monotone:
  assumes "i < length ports" and "isDisabled (ports ! i)" and "\<not> isDisabled p'"
    and "calculateDesiredLaneMode ports perLane = Returns before"
    and "calculateDesiredLaneMode (ports[i := p']) perLane = Returns after"
  shows "laneModeLeq SINGLE after \<and> laneModeLeq after before"
proof
  show "laneModeLeq SINGLE after" by (cases after) (simp_all add: laneModeLeq_def)
  show "laneModeLeq after before"
    using assms calculateLoop_enable_port unfolding calculateDesiredLaneMode_def by blast
qed

theorem calculateDesiredLaneMode_monotone_witness:
  "calculateDesiredLaneMode
     [\<lparr>getID = 10, getSpeed = 10000, isDisabled = False\<rparr>,
      \<lparr>getID = 11, getSpeed = 10000, isDisabled = True\<rparr>,
      \<lparr>getID = 12, getSpeed = 10000, isDisabled = True\<rparr>,
      \<lparr>getID = 13, getSpeed = 10000, isDisabled = True\<rparr>] 10000 = Returns QUAD \<and>
   calculateDesiredLaneMode
     [\<lparr>getID = 10, getSpeed = 10000, isDisabled = False\<rparr>,
      \<lparr>getID = 11, getSpeed = 10000, isDisabled = True\<rparr>,
      \<lparr>getID = 12, getSpeed = 20000, isDisabled = False\<rparr>,
      \<lparr>getID = 13, getSpeed = 10000, isDisabled = True\<rparr>] 10000 = Returns DUAL \<and>
   laneModeLeq SINGLE DUAL \<and> laneModeLeq DUAL QUAD"
proof -
  let ?ports = "[\<lparr>getID = 10, getSpeed = 10000, isDisabled = False\<rparr>,
      \<lparr>getID = 11, getSpeed = 10000, isDisabled = True\<rparr>,
      \<lparr>getID = 12, getSpeed = 10000, isDisabled = True\<rparr>,
      \<lparr>getID = 13, getSpeed = 10000, isDisabled = True\<rparr>]"
  let ?p = "\<lparr>getID = 12, getSpeed = 20000, isDisabled = False\<rparr>"
  have a: "calculateDesiredLaneMode ?ports 10000 = Returns QUAD" by code_simp
  have b: "calculateDesiredLaneMode (?ports[2 := ?p]) 10000 = Returns DUAL" by code_simp
  have c: "2 < length ?ports" "isDisabled (?ports ! 2)" "\<not> isDisabled ?p" by simp_all
  from calculateDesiredLaneMode_monotone [OF c a b] a b show ?thesis by simp
qed

section \<open>Lane placement\<close>

text \<open>
  What the placement checks of the loop do guarantee: a resolution that returns SINGLE has
  no enabled port outside lane 0, and no placement error is thrown when only lane 0 is
  enabled, or only lanes 0 and 2 with no port demanding SINGLE.
\<close>

lemma calculateLoop_SINGLE_later:
  "0 < lane \<Longrightarrow> calculateLoop perLane lane d ports = Returns SINGLE \<Longrightarrow>
   d = SINGLE \<and> (\<forall>p \<in> set ports. isDisabled p)"
proof (induction ports arbitrary: lane d)
  case Nil
  then show ?case by simp
next
  case (Cons p ports)
  show ?case
  proof (cases "isDisabled p")
    case True
    with Cons.prems Cons.IH [of "Suc lane" d] show ?thesis by simp
  next
    case False
    from Cons.prems(2) False obtain n where
      n: "neededLaneModeForSpeed (getSpeed p) perLane = Returns n"
      by (cases "neededLaneModeForSpeed (getSpeed p) perLane") simp_all
    let ?e = "if laneModeLess n d then n else d"
    from Cons.prems False n have ne: "?e \<noteq> SINGLE"
      by (auto simp: Let_def split: if_splits)
    with Cons.prems False n have "calculateLoop perLane (Suc lane) ?e ports = Returns SINGLE"
      by (simp add: Let_def split: if_splits)
    from Cons.IH [OF _ this] ne show ?thesis by simp
  qed
qed

lemma calculateDesiredLaneMode_SINGLE_only_lane0:
  assumes "calculateDesiredLaneMode ports perLane = Returns SINGLE"
    and "lane < length ports" and "\<not> isDisabled (ports ! lane)"
  shows "lane = 0"
proof (cases ports)
  case Nil
  with assms show ?thesis by simp
next
  case (Cons p rest)
  show ?thesis
  proof (cases "isDisabled p")
    case True
    with assms(1) Cons have "calculateLoop perLane (Suc 0) QUAD rest = Returns SINGLE"
      by (simp add: calculateDesiredLaneMode_def)
    from calculateLoop_SINGLE_later [OF _ this] show ?thesis by simp
  next
    case False
    from assms(1) Cons False obtain n where
      n: "neededLaneModeForSpeed (getSpeed p) perLane = Returns n"
      by (cases "neededLaneModeForSpeed (getSpeed p) perLane")
         (simp_all add: calculateDesiredLaneMode_def)
    let ?e = "if laneModeLess n QUAD then n else QUAD"
    from assms(1) Cons False n have "calculateLoop perLane (Suc 0) ?e rest = Returns SINGLE"
      by (simp add: calculateDesiredLaneMode_def Let_def split: if_splits)
    from calculateLoop_SINGLE_later [OF _ this] have "\<forall>q \<in> set rest. isDisabled q" by simp
    with assms(2,3) Cons show ?thesis by (cases lane) simp_all
  qed
qed

lemma calculateDesiredLaneMode_lane0_only:
  assumes "\<forall>p \<in> set rest. isDisabled p"
    and "calculateDesiredLaneMode (p0 # rest) perLane = Throws e"
  shows "\<not> isLanePlacementError e"
  using assms
  by (cases "neededLaneModeForSpeed (getSpeed p0) perLane")
     (auto simp: calculateDesiredLaneMode_def calculateLoop_all_disabled Let_def
        isLanePlacementError_def neededLaneModeForSpeed_def split: if_splits)

lemma calculateDesiredLaneMode_lanes02_only:
  assumes "isDisabled p1" and "isDisabled p3"
    and "isDisabled p0 \<or> neededLaneModeForSpeed (getSpeed p0) perLane \<noteq> Returns SINGLE"
    and "isDisabled p2 \<or> neededLaneModeForSpeed (getSpeed p2) perLane \<noteq> Returns SINGLE"
    and "calculateDesiredLaneMode [p0, p1, p2, p3] perLane = Throws e"
  shows "\<not> isLanePlacementError e"
proof -
  have two: "Suc (Suc 0) = 2" by simp
  show ?thesis
    using assms
    by (cases "neededLaneModeForSpeed (getSpeed p0) perLane";
        cases "neededLaneModeForSpeed (getSpeed p2) perLane")
       (auto simp: calculateDesiredLaneMode_def Let_def two laneModeLess_def
          isLanePlacementError_def neededLaneModeForSpeed_def split: if_splits)
qed

text \<open>
  Claim C3. Resolution is to throw a lane-placement error whenever the resolved mode is
  DUAL and a port at lane 1 or lane 3 is enabled. The loop tests each port against the mode
  accumulated when the port is visited: with lanes 0 and 1 enabled at one lane each and lane
  2 enabled at two lanes, it returns DUAL with lane 1 enabled and throws nothing, while the
  same three ports with the two-lane port at lane 0 are rejected.
\<close>

theorem calculateDesiredLaneMode_accepts_lane1_in_DUAL:
  "calculateDesiredLaneMode
     [\<lparr>getID = 10, getSpeed = 10000, isDisabled = False\<rparr>,
      \<lparr>getID = 11, getSpeed = 10000, isDisabled = False\<rparr>,
      \<lparr>getID = 12, getSpeed = 20000, isDisabled = False\<rparr>,
      \<lparr>getID = 13, getSpeed = 10000, isDisabled = True\<rparr>] 10000 = Returns DUAL \<and>
   calculateDesiredLaneMode
     [\<lparr>getID = 10, getSpeed = 20000, isDisabled = False\<rparr>,
      \<lparr>getID = 11, getSpeed = 10000, isDisabled = False\<rparr>,
      \<lparr>getID = 12, getSpeed = 10000, isDisabled = False\<rparr>,
      \<lparr>getID = 13, getSpeed = 10000, isDisabled = True\<rparr>] 10000
     = Throws OnlyLanes0Or2InDualMode"
  by code_simp

section \<open>Resolution over a snapshot and the validity check\<close>

lemma collectPorts_defined: "collectPorts state bcmPorts acc \<noteq> Undefined"
  by (induction bcmPorts arbitrary: acc) (simp_all add: Let_def)

lemma neededLaneModeForSpeed_defined:
  "perLane \<noteq> 0 \<Longrightarrow> neededLaneModeForSpeed speed perLane \<noteq> Undefined"
  by (simp add: neededLaneModeForSpeed_def Let_def)

lemma calculateLoop_defined:
  "perLane \<noteq> 0 \<Longrightarrow> calculateLoop perLane lane desired ports \<noteq> Undefined"
proof (induction ports arbitrary: lane desired)
  case Nil
  then show ?case by simp
next
  case (Cons p ports)
  then show ?case
    using neededLaneModeForSpeed_defined [of perLane "getSpeed p"]
    by (cases "neededLaneModeForSpeed (getSpeed p) perLane") (simp_all add: Let_def)
qed

lemma getDesiredLaneMode_defined:
  "maxLaneSpeed (controllingPort g) \<noteq> 0 \<Longrightarrow> getDesiredLaneMode g state \<noteq> Undefined"
  using collectPorts_defined [of state "allPorts g" "[]"]
  by (cases "collectPorts state (allPorts g) []")
     (simp_all add: getDesiredLaneMode_def calculateDesiredLaneMode_def calculateLoop_defined)

lemmas example_defs = examplePort_def exampleGroup_def exampleHw_def accepting_def snapshot_def
  scenarioA_def scenarioB_def scenarioC_def scenarioD_def scenarioE_def scenarioUnsupported_def
  scenarioFiveLanes_def

lemmas resolve_defs = getDesiredLaneMode_def getSwitchStatePort_def
  calculateDesiredLaneMode_def neededLaneModeForSpeed_def DEFAULT_def laneModeLess_def Let_def
  word_le_nat_alt word_less_nat_alt

text \<open>The end-to-end scenarios on the example group.\<close>

lemma scenarioA_resolves:
  "getDesiredLaneMode exampleGroup scenarioA = Returns QUAD"
  by (simp add: example_defs resolve_defs)

lemma scenarioB_resolves:
  "getDesiredLaneMode exampleGroup scenarioB = Returns SINGLE"
  by (simp add: example_defs resolve_defs)

lemma scenarioC_resolves:
  "getDesiredLaneMode exampleGroup scenarioC = Returns DUAL"
  by (simp add: example_defs resolve_defs)

lemma scenarioD_throws:
  "getDesiredLaneMode exampleGroup scenarioD = Throws OnlyLane0InSingleMode"
  by (simp add: example_defs resolve_defs)

lemma scenarioE_throws:
  "getDesiredLaneMode exampleGroup scenarioE = Throws SpeedCannotBeDefault"
  by (simp add: example_defs resolve_defs)

lemma scenarioUnsupported_throws:
  "getDesiredLaneMode exampleGroup scenarioUnsupported
     = Throws (PortDoesNotSupportSpeed 13 100000)"
  by (simp add: example_defs resolve_defs)

lemma scenarioFiveLanes_throws:
  "getDesiredLaneMode exampleGroup scenarioFiveLanes = Throws (CannotSupportSpeed 50000)"
  by (simp add: example_defs resolve_defs)

lemma exampleGroup_constructed:
  "construct accepting exampleHw (examplePort 10)
     [examplePort 10, examplePort 11, examplePort 12, examplePort 13] = Returns exampleGroup"
  by (simp add: example_defs construct_def getLane_def retrieveActiveLanes_def
      laneModeOfActiveLanes_def)

text \<open>
  Claim C7. \<open>validConfiguration\<close> never propagates an exception: it returns false exactly
  when the pipeline of \<open>getDesiredLaneMode\<close> (speed-support check, then resolution) throws,
  and true exactly when the pipeline returns a mode. For a group whose maximum speed per
  lane is not 0 the pipeline does one or the other, so the check returns true otherwise.
\<close>

theorem validConfiguration_never_throws:
  "(\<forall>e. validConfiguration g state \<noteq> Throws e) \<and>
   (validConfiguration g state = Returns False \<longleftrightarrow>
      (\<exists>e. getDesiredLaneMode g state = Throws e)) \<and>
   (validConfiguration g state = Returns True \<longleftrightarrow>
      (\<exists>mode. getDesiredLaneMode g state = Returns mode)) \<and>
   (maxLaneSpeed (controllingPort g) \<noteq> 0 \<longrightarrow>
      validConfiguration g state = Returns (\<not> (\<exists>e. getDesiredLaneMode g state = Throws e)))"
  using getDesiredLaneMode_defined [of g state]
  by (cases "getDesiredLaneMode g state") (auto simp: validConfiguration_def)

theorem validConfiguration_never_throws_witness:
  "validConfiguration exampleGroup scenarioD = Returns False \<and>
   validConfiguration exampleGroup scenarioB = Returns True"
  using validConfiguration_never_throws [of exampleGroup scenarioD]
    validConfiguration_never_throws [of exampleGroup scenarioB]
    scenarioD_throws scenarioB_resolves
  by (simp add: examplePort_def exampleGroup_def)

text \<open>
  Claim C6. When computing the desired lane mode throws (unsupported speed, sentinel speed,
  more than four lanes needed, lane placement), \<open>reconfigureIfNeeded\<close> throws that error
  before any hardware mutation: no port is disabled or enabled, the lane register is not
  written, no call reaches the hardware and the recorded lane mode is unchanged.
\<close>

theorem reconfigureIfNeeded_error_before_hardware:
  "getDesiredLaneMode g state = Throws e \<Longrightarrow>
   reconfigureIfNeeded fails state (g, hw) = (Throws e, (g, hw))"
  by (simp add: reconfigureIfNeeded_def)

theorem reconfigureIfNeeded_error_before_hardware_witness:
  "reconfigureIfNeeded accepting scenarioD (exampleGroup, exampleHw)
     = (Throws OnlyLane0InSingleMode, (exampleGroup, exampleHw)) \<and>
   reconfigureIfNeeded accepting scenarioE (exampleGroup, exampleHw)
     = (Throws SpeedCannotBeDefault, (exampleGroup, exampleHw)) \<and>
   reconfigureIfNeeded accepting scenarioUnsupported (exampleGroup, exampleHw)
     = (Throws (PortDoesNotSupportSpeed 13 100000), (exampleGroup, exampleHw)) \<and>
   reconfigureIfNeeded accepting scenarioFiveLanes (exampleGroup, exampleHw)
     = (Throws (CannotSupportSpeed 50000), (exampleGroup, exampleHw))"
  using
    reconfigureIfNeeded_error_before_hardware [OF scenarioD_throws, of accepting exampleHw]
    reconfigureIfNeeded_error_before_hardware [OF scenarioE_throws, of accepting exampleHw]
    reconfigureIfNeeded_error_before_hardware
      [OF scenarioUnsupported_throws, of accepting exampleHw]
    reconfigureIfNeeded_error_before_hardware
      [OF scenarioFiveLanes_throws, of accepting exampleHw]
  by simp

section \<open>Reconfiguration\<close>

lemma getDesiredLaneMode_laneMode_update [simp]:
  "getDesiredLaneMode (g\<lparr>laneMode := m\<rparr>) state = getDesiredLaneMode g state"
  by (simp add: getDesiredLaneMode_def split: outcome.splits)

lemma reconfigure_Returns:
  assumes "reconfigure fails state m (g, hw) = (Returns u, (g', hw'))"
  shows "g' = g\<lparr>laneMode := m\<rparr>"
  using assms
  by (auto simp: reconfigure_def setActiveLanes_def Let_def
      split: prod.splits outcome.splits if_splits)

lemma disableAll_accepted:
  "\<forall>b \<in> set ps. \<not> fails (DisableCall (getBcmPortId b)) \<Longrightarrow>
   disableAll fails state ps hw =
     (Returns (),
      hw\<lparr>portEnabled := (\<lambda>i. i \<notin> getBcmPortId ` set ps \<and> portEnabled hw i),
         calls := calls hw @ map (\<lambda>b. DisableCall (getBcmPortId b)) ps\<rparr>)"
  by (induction ps arbitrary: hw) (auto simp: disable_def Let_def fun_eq_iff)

lemma enableAll_accepted:
  "\<forall>b \<in> set ps. \<not> fails (EnableCall (getBcmPortId b)) \<Longrightarrow>
   enableAll fails state ps hw =
     (Returns (),
      hw\<lparr>portEnabled :=
           (\<lambda>i. (\<exists>b \<in> set ps. getBcmPortId b = i \<and> \<not> isDisabled (getSwitchStatePort b state))
                \<or> portEnabled hw i),
         calls := calls hw @ map (\<lambda>b. EnableCall (getBcmPortId b))
                    (filter (\<lambda>b. \<not> isDisabled (getSwitchStatePort b state)) ps)\<rparr>)"
  by (induction ps arbitrary: hw) (auto simp: enable_def Let_def fun_eq_iff)

lemma reconfigure_accepted:
  assumes "\<forall>c. \<not> fails c"
  shows "reconfigure fails state m (g, hw) =
     (Returns (),
      (g\<lparr>laneMode := m\<rparr>,
       hw\<lparr>portEnabled :=
            (\<lambda>i. (\<exists>b \<in> set (allPorts g). getBcmPortId b = i
                      \<and> \<not> isDisabled (getSwitchStatePort b state))
                 \<or> (i \<notin> getBcmPortId ` set (allPorts g) \<and> portEnabled hw i)),
          activeLanes :=
            (activeLanes hw)(getBcmPortId (controllingPort g) := activeLanesOfMode m),
          calls := calls hw
             @ map (\<lambda>b. DisableCall (getBcmPortId b)) (allPorts g)
             @ [SetActiveLanesCall (getBcmPortId (controllingPort g)) m]
             @ map (\<lambda>b. EnableCall (getBcmPortId b))
                 (filter (\<lambda>b. \<not> isDisabled (getSwitchStatePort b state)) (allPorts g))\<rparr>))"
  using assms
  by (simp add: reconfigure_def setActiveLanes_def Let_def disableAll_accepted enableAll_accepted)

lemma disableAll_any:
  "disableAll fails state ps hw = (r, hw') \<Longrightarrow>
   r \<noteq> Undefined \<and> activeLanes hw' = activeLanes hw \<and>
   (\<exists>zs. calls hw' = calls hw @ zs \<and> prefix zs (map (\<lambda>b. DisableCall (getBcmPortId b)) ps))"
proof (induction ps arbitrary: hw)
  case Nil
  then show ?case by auto
next
  case (Cons p ps)
  show ?case
  proof (cases "fails (DisableCall (getBcmPortId p))")
    case True
    with Cons.prems show ?thesis by (auto simp: disable_def Let_def)
  next
    case False
    let ?hw1 = "hw\<lparr>calls := calls hw @ [DisableCall (getBcmPortId p)],
                  portEnabled := (portEnabled hw)(getBcmPortId p := False)\<rparr>"
    from Cons.prems False have "disableAll fails state ps ?hw1 = (r, hw')"
      by (simp add: disable_def Let_def)
    from Cons.IH [OF this] show ?thesis by auto
  qed
qed

lemma enableAll_any:
  "enableAll fails state ps hw = (r, hw') \<Longrightarrow>
   r \<noteq> Undefined \<and> activeLanes hw' = activeLanes hw \<and>
   (\<exists>zs. calls hw' = calls hw @ zs \<and>
      prefix zs (map (\<lambda>b. EnableCall (getBcmPortId b))
                  (filter (\<lambda>b. \<not> isDisabled (getSwitchStatePort b state)) ps)))"
proof (induction ps arbitrary: hw)
  case Nil
  then show ?case by auto
next
  case (Cons p ps)
  show ?case
  proof (cases "isDisabled (getSwitchStatePort p state)")
    case True
    with Cons.prems have "enableAll fails state ps hw = (r, hw')" by simp
    from Cons.IH [OF this] True show ?thesis by simp
  next
    case en: False
    show ?thesis
    proof (cases "fails (EnableCall (getBcmPortId p))")
      case True
      with Cons.prems en show ?thesis by (auto simp: enable_def Let_def)
    next
      case False
      let ?hw1 = "hw\<lparr>calls := calls hw @ [EnableCall (getBcmPortId p)],
                    portEnabled := (portEnabled hw)(getBcmPortId p := True)\<rparr>"
      from Cons.prems False en have "enableAll fails state ps ?hw1 = (r, hw')"
        by (simp add: enable_def Let_def)
      from Cons.IH [OF this] en show ?thesis by auto
    qed
  qed
qed

lemma disableAll_Returns_calls:
  "disableAll fails state ps hw = (Returns u, hw') \<Longrightarrow>
   calls hw' = calls hw @ map (\<lambda>b. DisableCall (getBcmPortId b)) ps"
proof (induction ps arbitrary: hw)
  case Nil
  then show ?case by simp
next
  case (Cons p ps)
  show ?case
  proof (cases "fails (DisableCall (getBcmPortId p))")
    case True
    with Cons.prems show ?thesis by (simp add: disable_def Let_def)
  next
    case False
    let ?hw1 = "hw\<lparr>calls := calls hw @ [DisableCall (getBcmPortId p)],
                  portEnabled := (portEnabled hw)(getBcmPortId p := False)\<rparr>"
    from Cons.prems False have "disableAll fails state ps ?hw1 = (Returns u, hw')"
      by (simp add: disable_def Let_def)
    from Cons.IH [OF this] show ?thesis by simp
  qed
qed

text \<open>What \<open>reconfigure\<close> leaves behind, whatever the hardware accepts.\<close>

lemma reconfigure_any:
  assumes "reconfigure fails state m (g, hw) = (r, (g', hw'))"
  shows "r \<noteq> Undefined \<and>
    ((g' = g \<and> activeLanes hw' = activeLanes hw \<and> r \<noteq> Returns ()) \<or>
     (g' = g\<lparr>laneMode := m\<rparr> \<and>
      activeLanes hw' =
        (activeLanes hw)(getBcmPortId (controllingPort g) := activeLanesOfMode m) \<and>
      \<not> fails (SetActiveLanesCall (getBcmPortId (controllingPort g)) m) \<and>
      SetActiveLanesCall (getBcmPortId (controllingPort g)) m \<in> set (calls hw'))) \<and>
    (\<exists>zs. calls hw' = calls hw @ zs \<and>
       prefix zs (map (\<lambda>b. DisableCall (getBcmPortId b)) (allPorts g)
          @ [SetActiveLanesCall (getBcmPortId (controllingPort g)) m]
          @ map (\<lambda>b. EnableCall (getBcmPortId b))
              (filter (\<lambda>b. \<not> isDisabled (getSwitchStatePort b state)) (allPorts g))))"
proof -
  let ?D = "map (\<lambda>b. DisableCall (getBcmPortId b)) (allPorts g)"
  let ?S = "SetActiveLanesCall (getBcmPortId (controllingPort g)) m"
  let ?E = "map (\<lambda>b. EnableCall (getBcmPortId b))
              (filter (\<lambda>b. \<not> isDisabled (getSwitchStatePort b state)) (allPorts g))"
  obtain r1 hw1 where d: "disableAll fails state (allPorts g) hw = (r1, hw1)"
    by (cases "disableAll fails state (allPorts g) hw")
  note d1 = disableAll_any [OF d]
  show ?thesis
  proof (cases r1)
    case Undefined
    with d1 show ?thesis by simp
  next
    case (Throws e)
    with assms d have "r = Throws e" "g' = g" "hw' = hw1"
      by (simp_all add: reconfigure_def)
    with d1 show ?thesis by (auto intro: prefix_order.trans)
  next
    case (Returns u)
    with d have c1: "calls hw1 = calls hw @ ?D" by (simp add: disableAll_Returns_calls)
    show ?thesis
    proof (cases "fails ?S")
      case True
      with assms d Returns have "r = Throws HardwareAccessError" "g' = g"
        "hw' = hw1\<lparr>calls := calls hw1 @ [?S]\<rparr>"
        by (auto simp: reconfigure_def setActiveLanes_def Let_def)
      with d1 c1 show ?thesis by simp
    next
      case False
      let ?hw2 = "hw1\<lparr>calls := calls hw1 @ [?S],
          activeLanes := (activeLanes hw1)(getBcmPortId (controllingPort g) := activeLanesOfMode m)\<rparr>"
      obtain r3 hw3 where e: "enableAll fails state (allPorts g) ?hw2 = (r3, hw3)"
        by (cases "enableAll fails state (allPorts g) ?hw2")
      note e1 = enableAll_any [OF e]
      from assms d Returns False e have "r = r3" "g' = g\<lparr>laneMode := m\<rparr>" "hw' = hw3"
        by (auto simp: reconfigure_def setActiveLanes_def Let_def)
      with d1 c1 e1 False show ?thesis by auto
    qed
  qed
qed

lemma reconfigureIfNeeded_any:
  assumes "reconfigureIfNeeded fails state (g, hw) = (r, (g', hw'))"
  shows "(g' = g \<and> activeLanes hw' = activeLanes hw) \<or>
    (\<exists>m. getDesiredLaneMode g state = Returns m \<and> m \<noteq> laneMode g \<and>
       g' = g\<lparr>laneMode := m\<rparr> \<and>
       activeLanes hw' =
         (activeLanes hw)(getBcmPortId (controllingPort g) := activeLanesOfMode m) \<and>
       \<not> fails (SetActiveLanesCall (getBcmPortId (controllingPort g)) m) \<and>
       SetActiveLanesCall (getBcmPortId (controllingPort g)) m \<in> set (calls hw'))"
proof (cases "getDesiredLaneMode g state")
  case (Returns m)
  show ?thesis
  proof (cases "m = laneMode g")
    case True
    with assms Returns show ?thesis by (simp add: reconfigureIfNeeded_def)
  next
    case False
    with assms Returns have "reconfigure fails state m (g, hw) = (r, (g', hw'))"
      by (simp add: reconfigureIfNeeded_def)
    from reconfigure_any [OF this] Returns False show ?thesis by blast
  qed
next
  case (Throws e)
  with assms show ?thesis by (simp add: reconfigureIfNeeded_def)
next
  case Undefined
  with assms show ?thesis by (simp add: reconfigureIfNeeded_def)
qed

lemma laneModeOfActiveLanes_activeLanesOfMode:
  "laneModeOfActiveLanes (activeLanesOfMode m) = Some m"
  by (cases m) (simp_all add: laneModeOfActiveLanes_def)

lemma construct_matches:
  "construct fails hw controlling ports = Returns g \<Longrightarrow> laneModeMatchesHardware (g, hw)"
  by (auto simp: construct_def retrieveActiveLanes_def laneModeMatchesHardware_def
      split: if_splits option.splits)

lemma reconfigureIfNeeded_matches:
  assumes "laneModeMatchesHardware s" and "reconfigureIfNeeded fails state s = (r, s')"
  shows "laneModeMatchesHardware s'"
proof -
  obtain g hw g' hw' where s: "s = (g, hw)" "s' = (g', hw')"
    by (cases s, cases s') auto
  from reconfigureIfNeeded_any [of fails state g hw r g' hw'] assms s show ?thesis
    by (auto simp: laneModeMatchesHardware_def laneModeOfActiveLanes_activeLanesOfMode)
qed

lemma reachable_matches: "reachable s \<Longrightarrow> laneModeMatchesHardware s"
  by (induction rule: reachable.induct)
     (auto intro: construct_matches reconfigureIfNeeded_matches)

lemma pair_collapse3: "x = (fst x, (fst (snd x), snd (snd x)))"
  by simp

text \<open>
  Claim C1. When the resolved desired lane mode equals the recorded lane mode,
  \<open>reconfigureIfNeeded\<close> performs no hardware action (no disable, no setActiveLanes, no
  enable): group and hardware are returned as they were. After a call that returned, a second
  call with the same snapshot performs none either, so two calls in a row mutate the
  hardware at most once.
\<close>

theorem reconfigureIfNeeded_idempotent:
  "(getDesiredLaneMode g state = Returns (laneMode g) \<longrightarrow>
      reconfigureIfNeeded fails state (g, hw) = (Returns (), (g, hw))) \<and>
   (reconfigureIfNeeded fails state (g, hw) = (Returns (), s1) \<longrightarrow>
      reconfigureIfNeeded fails' state s1 = (Returns (), s1))"
proof (intro conjI impI)
  assume "getDesiredLaneMode g state = Returns (laneMode g)"
  then show "reconfigureIfNeeded fails state (g, hw) = (Returns (), (g, hw))"
    by (simp add: reconfigureIfNeeded_def)
next
  assume first: "reconfigureIfNeeded fails state (g, hw) = (Returns (), s1)"
  obtain g1 hw1 where s1: "s1 = (g1, hw1)" by (cases s1)
  from first obtain m where m: "getDesiredLaneMode g state = Returns m"
    by (cases "getDesiredLaneMode g state") (simp_all add: reconfigureIfNeeded_def)
  show "reconfigureIfNeeded fails' state s1 = (Returns (), s1)"
  proof (cases "m = laneMode g")
    case True
    with first m have "s1 = (g, hw)" by (simp add: reconfigureIfNeeded_def)
    with m True show ?thesis by (simp add: reconfigureIfNeeded_def)
  next
    case False
    with first m s1 have "reconfigure fails state m (g, hw) = (Returns (), (g1, hw1))"
      by (simp add: reconfigureIfNeeded_def)
    then have "g1 = g\<lparr>laneMode := m\<rparr>" by (rule reconfigure_Returns)
    with m s1 show ?thesis by (simp add: reconfigureIfNeeded_def)
  qed
qed

theorem reconfigureIfNeeded_idempotent_witness:
  "reconfigureIfNeeded accepting scenarioA (exampleGroup, exampleHw)
     = (Returns (), (exampleGroup, exampleHw)) \<and>
   reconfigureIfNeeded accepting scenarioB (exampleGroup, exampleHw)
     = (Returns (), snd (reconfigureIfNeeded accepting scenarioB (exampleGroup, exampleHw))) \<and>
   calls (snd (snd (reconfigureIfNeeded accepting scenarioB (exampleGroup, exampleHw)))) \<noteq> [] \<and>
   reconfigureIfNeeded accepting scenarioB
       (snd (reconfigureIfNeeded accepting scenarioB (exampleGroup, exampleHw)))
     = (Returns (), snd (reconfigureIfNeeded accepting scenarioB (exampleGroup, exampleHw)))"
proof -
  have a: "getDesiredLaneMode exampleGroup scenarioA = Returns (laneMode exampleGroup)"
    using scenarioA_resolves by (simp add: exampleGroup_def)
  have "\<forall>c. \<not> accepting c" by (simp add: accepting_def)
  from reconfigure_accepted [OF this, of scenarioB SINGLE exampleGroup exampleHw] scenarioB_resolves
  have b: "reconfigureIfNeeded accepting scenarioB (exampleGroup, exampleHw)
     = (Returns (), snd (reconfigureIfNeeded accepting scenarioB (exampleGroup, exampleHw)))"
    and c: "calls (snd (snd (reconfigureIfNeeded accepting scenarioB (exampleGroup, exampleHw)))) \<noteq> []"
    by (simp_all add: reconfigureIfNeeded_def exampleGroup_def)
  from reconfigureIfNeeded_idempotent [of exampleGroup scenarioA accepting exampleHw] a
    reconfigureIfNeeded_idempotent [of exampleGroup scenarioB accepting exampleHw _ accepting] b c
  show ?thesis by simp
qed

text \<open>
  Claim C5. When the resolved desired mode differs from the recorded one, the calls that
  \<open>reconfigureIfNeeded\<close> makes are, in order: disable every member port, write the new
  lane mode, enable the members that the snapshot enables. Whatever the hardware accepts,
  the calls made are an initial segment of that sequence; when it accepts every call the
  whole sequence is made, each member port ends enabled exactly when the snapshot enables
  it, the other ports are untouched, and the lane register and the recorded mode hold the
  new mode.
\<close>

theorem reconfigure_protocol_order:
  assumes "getDesiredLaneMode g state = Returns m" and "m \<noteq> laneMode g"
    and "reconfigureIfNeeded fails state (g, hw) = (r, (g', hw'))"
  shows "(\<exists>made. calls hw' = calls hw @ made \<and>
            prefix made
              (map (\<lambda>b. DisableCall (getBcmPortId b)) (allPorts g)
               @ [SetActiveLanesCall (getBcmPortId (controllingPort g)) m]
               @ map (\<lambda>b. EnableCall (getBcmPortId b))
                   (filter (\<lambda>b. \<not> isDisabled (getSwitchStatePort b state)) (allPorts g)))) \<and>
         ((\<forall>c. \<not> fails c) \<longrightarrow>
            r = Returns () \<and>
            calls hw' = calls hw
               @ map (\<lambda>b. DisableCall (getBcmPortId b)) (allPorts g)
               @ [SetActiveLanesCall (getBcmPortId (controllingPort g)) m]
               @ map (\<lambda>b. EnableCall (getBcmPortId b))
                   (filter (\<lambda>b. \<not> isDisabled (getSwitchStatePort b state)) (allPorts g)) \<and>
            (\<forall>b \<in> set (allPorts g).
               portEnabled hw' (getBcmPortId b) = (\<not> isDisabled (getSwitchStatePort b state))) \<and>
            (\<forall>i. i \<notin> getBcmPortId ` set (allPorts g) \<longrightarrow> portEnabled hw' i = portEnabled hw i) \<and>
            laneMode g' = m \<and>
            activeLanes hw' (getBcmPortId (controllingPort g)) = activeLanesOfMode m)"
proof -
  from assms have rec: "reconfigure fails state m (g, hw) = (r, (g', hw'))"
    by (simp add: reconfigureIfNeeded_def)
  show ?thesis
  proof (intro conjI impI)
    from reconfigure_any [OF rec]
    show "\<exists>made. calls hw' = calls hw @ made \<and>
            prefix made
              (map (\<lambda>b. DisableCall (getBcmPortId b)) (allPorts g)
               @ [SetActiveLanesCall (getBcmPortId (controllingPort g)) m]
               @ map (\<lambda>b. EnableCall (getBcmPortId b))
                   (filter (\<lambda>b. \<not> isDisabled (getSwitchStatePort b state)) (allPorts g)))"
      by blast
  next
    assume ok: "\<forall>c. \<not> fails c"
    note eq = rec [unfolded reconfigure_accepted [OF ok]]
    from eq show "r = Returns ()" by simp
    from eq show "calls hw' = calls hw
               @ map (\<lambda>b. DisableCall (getBcmPortId b)) (allPorts g)
               @ [SetActiveLanesCall (getBcmPortId (controllingPort g)) m]
               @ map (\<lambda>b. EnableCall (getBcmPortId b))
                   (filter (\<lambda>b. \<not> isDisabled (getSwitchStatePort b state)) (allPorts g))"
      by auto
    from eq show "\<forall>b \<in> set (allPorts g).
               portEnabled hw' (getBcmPortId b) = (\<not> isDisabled (getSwitchStatePort b state))"
      by (auto simp: getSwitchStatePort_def)
    from eq show "\<forall>i. i \<notin> getBcmPortId ` set (allPorts g) \<longrightarrow> portEnabled hw' i = portEnabled hw i"
      by auto
    from eq show "laneMode g' = m" by auto
    from eq show "activeLanes hw' (getBcmPortId (controllingPort g)) = activeLanesOfMode m"
      by auto
  qed
qed

theorem reconfigure_protocol_order_witness:
  "calls (snd (snd (reconfigureIfNeeded accepting scenarioB (exampleGroup, exampleHw))))
     = [DisableCall 10, DisableCall 11, DisableCall 12, DisableCall 13,
        SetActiveLanesCall 10 SINGLE, EnableCall 10] \<and>
   calls (snd (snd (reconfigureIfNeeded accepting scenarioC (exampleGroup, exampleHw))))
     = [DisableCall 10, DisableCall 11, DisableCall 12, DisableCall 13,
        SetActiveLanesCall 10 DUAL, EnableCall 10, EnableCall 12] \<and>
   portEnabled (snd (snd (reconfigureIfNeeded accepting scenarioC (exampleGroup, exampleHw)))) 12 \<and>
   \<not> portEnabled (snd (snd (reconfigureIfNeeded accepting scenarioC (exampleGroup, exampleHw)))) 11"
  using
    reconfigure_protocol_order [OF scenarioB_resolves _ pair_collapse3, of accepting exampleHw]
    reconfigure_protocol_order [OF scenarioC_resolves _ pair_collapse3, of accepting exampleHw]
  by (simp add: example_defs getSwitchStatePort_def)

text \<open>
  Claim C2. After construction and after every completed operation, the lane mode recorded
  on the group is the one the lane-control register reports. The recorded mode changes only
  inside the reconfiguration protocol, only to the resolved desired mode, and only when the
  write of that mode to the register was made and succeeded.
\<close>

theorem laneMode_matches_hardware:
  "(reachable s \<longrightarrow> laneModeMatchesHardware s) \<and>
   (reconfigureIfNeeded fails state (g, hw) = (r, (g', hw')) \<and> laneMode g' \<noteq> laneMode g \<longrightarrow>
      getDesiredLaneMode g state = Returns (laneMode g') \<and>
      \<not> fails (SetActiveLanesCall (getBcmPortId (controllingPort g)) (laneMode g')) \<and>
      SetActiveLanesCall (getBcmPortId (controllingPort g)) (laneMode g') \<in> set (calls hw') \<and>
      activeLanes hw' (getBcmPortId (controllingPort g)) = activeLanesOfMode (laneMode g'))"
proof (intro conjI impI)
  assume "reachable s"
  then show "laneModeMatchesHardware s" by (rule reachable_matches)
next
  assume a: "reconfigureIfNeeded fails state (g, hw) = (r, (g', hw')) \<and> laneMode g' \<noteq> laneMode g"
  with reconfigureIfNeeded_any [of fails state g hw r g' hw']
  obtain m where m: "getDesiredLaneMode g state = Returns m" "g' = g\<lparr>laneMode := m\<rparr>"
      "activeLanes hw' =
         (activeLanes hw)(getBcmPortId (controllingPort g) := activeLanesOfMode m)"
      "\<not> fails (SetActiveLanesCall (getBcmPortId (controllingPort g)) m)"
      "SetActiveLanesCall (getBcmPortId (controllingPort g)) m \<in> set (calls hw')"
    by auto
  from m show "getDesiredLaneMode g state = Returns (laneMode g')" by simp
  from m show "\<not> fails (SetActiveLanesCall (getBcmPortId (controllingPort g)) (laneMode g'))"
    by simp
  from m show "SetActiveLanesCall (getBcmPortId (controllingPort g)) (laneMode g') \<in> set (calls hw')"
    by simp
  from m show "activeLanes hw' (getBcmPortId (controllingPort g)) = activeLanesOfMode (laneMode g')"
    by simp
qed

theorem laneMode_matches_hardware_witness:
  "laneModeMatchesHardware (exampleGroup, exampleHw) \<and>
   laneModeMatchesHardware (snd (reconfigureIfNeeded accepting scenarioB (exampleGroup, exampleHw))) \<and>
   laneMode (fst (snd (reconfigureIfNeeded accepting scenarioB (exampleGroup, exampleHw)))) = SINGLE \<and>
   activeLanes (snd (snd (reconfigureIfNeeded accepting scenarioB (exampleGroup, exampleHw)))) 10 = 4"
proof -
  let ?s = "reconfigureIfNeeded accepting scenarioB (exampleGroup, exampleHw)"
  have r0: "reachable (exampleGroup, exampleHw)"
    using exampleGroup_constructed by (rule reachable.constructed)
  have ok: "\<forall>c. \<not> accepting c" by (simp add: accepting_def)
  have run: "?s = (Returns (), snd ?s)" and mode: "laneMode (fst (snd ?s)) = SINGLE"
    using reconfigure_accepted [OF ok, of scenarioB SINGLE exampleGroup exampleHw] scenarioB_resolves
    by (simp_all add: reconfigureIfNeeded_def exampleGroup_def)
  have r1: "reachable (snd ?s)"
    using r0 run by (rule reachable.reconfigured) simp
  have ne: "laneMode (fst (snd ?s)) \<noteq> laneMode exampleGroup"
    using mode by (simp add: exampleGroup_def)
  from laneMode_matches_hardware [of "(exampleGroup, exampleHw)"] r0
    laneMode_matches_hardware [of "snd ?s"] r1
    laneMode_matches_hardware [of _ accepting scenarioB exampleGroup exampleHw "fst ?s" "fst (snd ?s)" "snd (snd ?s)"]
    ne mode
  show ?thesis by (simp add: exampleGroup_def examplePort_def)
qed

end
